theory Spec2Isabelle
  imports Main "HOL-Library.Word"
begin

unbundle bit_operations_syntax

section \<open>Types of the Btor dialect and of the host framework\<close>

text \<open>
  Bit widths are C++ \<open>unsigned\<close> values (\<open>unsigned resultLength = ....getWidth()\<close> in
  \<open>verifyCmpOp\<close>, and \<open>getIntOrFloatBitWidth()\<close> of the host framework): 32-bit words,
  whose \<open>+\<close> wraps and whose \<open><\<close> is the unsigned order. The dimensions of a shaped
  type are \<open>int64_t\<close>: 64-bit words, read as two's complement by \<open>sint\<close>.
\<close>

type_synonym u32 = "32 word"
type_synonym i64 = "64 word"

text \<open>
  The types the operations of \<open>BtorOps.cpp\<close> look at. A \<open>btor::ArrayType\<close> holds two
  bit-vector types, its shape (the index type) and its element; both are kept by their
  widths. \<open>VectorType\<close> and \<open>MemRefType\<close> are the host framework's shaped types: a list
  of dimensions and an element type.
\<close>

datatype Type =
    BitVecType u32
  | ArrayType u32 u32
  | IntegerType u32
  | FloatType u32
  | VectorType "i64 list" Type
  | MemRefType "i64 list" Type
  | NoneType

text \<open>
  \<open>getBVType\<close> is \<open>opType.dyn_cast<btor::BitVecType>()\<close>, and \<open>cast<ValType>\<close> is
  instantiated at \<open>BitVecType\<close>: both give the bit-vector type (here: its width) or
  nothing. Nothing is the null type of \<open>dyn_cast\<close>, whose \<open>getWidth()\<close> is undefined
  behaviour, respectively the failed assertion of \<open>cast\<close>.
\<close>

fun getBVType :: "Type \<Rightarrow> u32 option" where
  "getBVType (BitVecType w) = Some w"
| "getBVType _ = None"

fun cast_BitVecType :: "Type \<Rightarrow> u32 option" where
  "cast_BitVecType (BitVecType w) = Some w"
| "cast_BitVecType _ = None"

text \<open>\<open>getElementTypeOrSelf\<close>: the element type of a shaped type, any other type itself.\<close>

fun getElementTypeOrSelf :: "Type \<Rightarrow> Type" where
  "getElementTypeOrSelf (VectorType _ e) = e"
| "getElementTypeOrSelf (MemRefType _ e) = e"
| "getElementTypeOrSelf t = t"

text \<open>\<open>getIntOrFloatBitWidth\<close> asserts that the type is an integer or a float.\<close>

fun getIntOrFloatBitWidth :: "Type \<Rightarrow> u32 option" where
  "getIntOrFloatBitWidth (IntegerType w) = Some w"
| "getIntOrFloatBitWidth (FloatType w) = Some w"
| "getIntOrFloatBitWidth _ = None"

fun cast_ArrayType :: "Type \<Rightarrow> (u32 \<times> u32) option" where
  "cast_ArrayType (ArrayType s e) = Some (s, e)"
| "cast_ArrayType _ = None"

fun cast_VectorType :: "Type \<Rightarrow> (i64 list \<times> Type) option" where
  "cast_VectorType (VectorType s e) = Some (s, e)"
| "cast_VectorType _ = None"

fun cast_MemRefType :: "Type \<Rightarrow> (i64 list \<times> Type) option" where
  "cast_MemRefType (MemRefType s e) = Some (s, e)"
| "cast_MemRefType _ = None"

section \<open>Diagnostics and verification results\<close>

text \<open>
  A diagnostic is the list of the arguments streamed into its message with \<open><<\<close>.
  \<open>emitError(msg)\<close> starts it with the message, \<open>emitOpError()\<close> with the quoted name
  of the operation. Notes that the host framework may attach to a diagnostic of its own
  accord are no part of the message and are not kept.
  A verifier returns \<open>success\<close> or the \<open>failure\<close> its diagnostic converts to;
  \<open>None\<close> stands for a run that has no result (an assertion of the host framework fails,
  or the behaviour is undefined).
\<close>

datatype DiagnosticArgument =
    String string
  | Unsigned u32
  | Integer i64
  | TypeArg Type

type_synonym Diagnostic = "DiagnosticArgument list"

datatype LogicalResult = success | failure Diagnostic

definition emitError :: "string \<Rightarrow> Diagnostic" where
  "emitError msg = [String msg]"

definition emitOpError :: "string \<Rightarrow> Diagnostic" where
  "emitOpError opName = [String [CHR 39], String opName, String ([CHR 39] @ '' op '')]"

text \<open>
  The bit widths a diagnostic names: the unsigned numbers streamed into it, and the widths
  of the types streamed into it. Its string literals are fixed text of the verifier and
  depend on no operation.
\<close>

fun typeWidths :: "Type \<Rightarrow> u32 list" where
  "typeWidths (BitVecType w) = [w]"
| "typeWidths (ArrayType s e) = [s, e]"
| "typeWidths (IntegerType w) = [w]"
| "typeWidths (FloatType w) = [w]"
| "typeWidths (VectorType _ e) = typeWidths e"
| "typeWidths (MemRefType _ e) = typeWidths e"
| "typeWidths NoneType = []"

fun argumentWidths :: "DiagnosticArgument \<Rightarrow> u32 list" where
  "argumentWidths (Unsigned n) = [n]"
| "argumentWidths (TypeArg t) = typeWidths t"
| "argumentWidths (String s) = []"
| "argumentWidths (Integer n) = []"

definition diagnosticWidths :: "Diagnostic \<Rightarrow> u32 list" where
  "diagnosticWidths d = concat (map argumentWidths d)"

fun succeeded :: "LogicalResult option \<Rightarrow> bool" where
  "succeeded (Some success) = True"
| "succeeded _ = False"

fun failed :: "LogicalResult option \<Rightarrow> bool" where
  "failed (Some (failure d)) = True"
| "failed _ = False"

section \<open>Slice, extension and concatenation\<close>

text \<open>
  An operation is kept by what its verifier reads: its name and the types of the operands
  and results that the generated accessors (\<open>op.in()\<close>, \<open>op.lhs()\<close>, \<open>op.getType()\<close>,
  ...) return.
\<close>

record SliceOp =
  sliceName :: string
  sliceIn :: Type
  sliceType :: Type

definition verifySliceOp :: "SliceOp \<Rightarrow> LogicalResult option" where
  "verifySliceOp op =
     (let srcType = getElementTypeOrSelf (sliceIn op);
          dstType = getElementTypeOrSelf (sliceType op)
      in case cast_BitVecType srcType of
           None \<Rightarrow> None
         | Some srcWidth \<Rightarrow>
             (case cast_BitVecType dstType of
                None \<Rightarrow> None
              | Some dstWidth \<Rightarrow>
                  if srcWidth < dstWidth
                  then Some (failure (emitError ''result type '' @
                         [TypeArg dstType,
                          String '' must be smaller or equal to the operand type '',
                          TypeArg srcType]))
                  else Some success))"

record ExtOp =
  extName :: string
  extIn :: Type
  extType :: Type

definition verifyExtOp :: "ExtOp \<Rightarrow> LogicalResult option" where
  "verifyExtOp op =
     (let srcType = getElementTypeOrSelf (extIn op);
          dstType = getElementTypeOrSelf (extType op)
      in case cast_BitVecType srcType of
           None \<Rightarrow> None
         | Some srcWidth \<Rightarrow>
             (case cast_BitVecType dstType of
                None \<Rightarrow> None
              | Some dstWidth \<Rightarrow>
                  if srcWidth > dstWidth
                  then Some (failure (emitError ''result type '' @
                         [TypeArg dstType,
                          String '' must be wider than operand type '',
                          TypeArg srcType]))
                  else Some success))"

record ConcatOp =
  concatName :: string
  concatLhs :: Type
  concatRhs :: Type
  concatType :: Type

definition verifyConcatOp :: "ConcatOp \<Rightarrow> LogicalResult option" where
  "verifyConcatOp op =
     (let firstType = getElementTypeOrSelf (concatLhs op);
          secondType = getElementTypeOrSelf (concatRhs op);
          dstType = getElementTypeOrSelf (concatType op)
      in case cast_BitVecType firstType of
           None \<Rightarrow> None
         | Some firstWidth \<Rightarrow>
             (case cast_BitVecType secondType of
                None \<Rightarrow> None
              | Some secondWidth \<Rightarrow>
                  (let sumOfTypes = firstWidth + secondWidth
                   in case cast_BitVecType dstType of
                        None \<Rightarrow> None
                      | Some dstWidth \<Rightarrow>
                          if sumOfTypes \<noteq> dstWidth
                          then Some (failure (emitError ''sum of '' @
                                 [TypeArg firstType, String '' and '', TypeArg secondType,
                                  String '' must be equal to operand type '',
                                  TypeArg dstType]))
                          else Some success)))"

section \<open>Boolean results: comparison, boolean, assertion and constraint operations\<close>

record CmpOp =
  cmpName :: string
  cmpResult :: Type

definition verifyCmpOp :: "CmpOp \<Rightarrow> LogicalResult option" where
  "verifyCmpOp op =
     (case getBVType (cmpResult op) of
        None \<Rightarrow> None
      | Some resultLength \<Rightarrow>
          if resultLength \<noteq> 1
          then Some (failure (emitOpError (cmpName op) @
                 [String ''result must be bit vector of length 1 instead got length of '',
                  Unsigned resultLength]))
          else Some success)"

record BooleanOp =
  boolName :: string
  boolResult :: Type

definition verifyBooleanOp :: "BooleanOp \<Rightarrow> LogicalResult option" where
  "verifyBooleanOp op =
     (case getBVType (boolResult op) of
        None \<Rightarrow> None
      | Some width \<Rightarrow>
          if width \<noteq> 1
          then Some (failure (emitOpError (boolName op) @
                 [String ''result must be bit vector of length 1 instead got length of '',
                  Unsigned width]))
          else Some success)"

record AssertNotOp =
  assertName :: string
  assertArg :: Type

definition verifyAssertNotOp :: "AssertNotOp \<Rightarrow> LogicalResult option" where
  "verifyAssertNotOp op =
     (case getBVType (assertArg op) of
        None \<Rightarrow> None
      | Some resultLength \<Rightarrow>
          if resultLength \<noteq> 1
          then Some (failure (emitOpError (assertName op) @
                 [String ''result must be bit vector of length 1 instead got length of '',
                  Unsigned resultLength]))
          else Some success)"

record ConstraintOp =
  constraintName :: string
  constraintArg :: Type

definition verifyConstraintOp :: "ConstraintOp \<Rightarrow> LogicalResult option" where
  "verifyConstraintOp op =
     (case getBVType (constraintArg op) of
        None \<Rightarrow> None
      | Some width \<Rightarrow>
          if width \<noteq> 1
          then Some (failure (emitOpError (constraintName op) @
                 [String ''result must be bit vector of length 1 instead got length of '',
                  Unsigned width]))
          else Some success)"

section \<open>Array operations\<close>

text \<open>
  The three encodings share their accessors: \<open>op.init()\<close>, \<open>op.value()\<close>,
  \<open>op.result()\<close> and \<open>op.getArrayType()\<close>, the array type the operation works on
  (a \<open>btor::ArrayType\<close>, a \<open>VectorType\<close> or a \<open>MemRefType\<close>, by the encoding).
\<close>

record InitArrayOp =
  initName :: string
  initInit :: Type
  initArrayType :: Type

record ReadOp =
  readName :: string
  readArrayType :: Type
  readResult :: Type

record WriteOp =
  writeName :: string
  writeValue :: Type
  writeArrayType :: Type

record MemRefInitArrayOp =
  memrefInitName :: string
  memrefInitResult :: Type

definition verifyInitArrayOp :: "InitArrayOp \<Rightarrow> LogicalResult option" where
  "verifyInitArrayOp op =
     (case getBVType (initInit op) of
        None \<Rightarrow> None
      | Some initWidth \<Rightarrow>
          (case cast_ArrayType (initArrayType op) of
             None \<Rightarrow> None
           | Some (shapeWidth, elementWidth) \<Rightarrow>
               if elementWidth \<noteq> initWidth
               then Some (failure (emitOpError (initName op) @
                      [String ''element initWidth of the array must match '',
                       String '' bitwidth of given value: '',
                       Unsigned initWidth]))
               else Some success))"

text \<open>
  The shape test of the vector and buffer verifiers:
  \<open>indicator = shape & (shape - 1)\<close> in \<open>int64_t\<close>. \<open>shape - 1\<close> overflows at the least
  \<open>int64_t\<close> only, which C++ leaves undefined.
\<close>

definition shapeIndicator :: "i64 \<Rightarrow> i64 option" where
  "shapeIndicator shape =
     (if shape = - (2 ^ 63) then None else Some (shape AND (shape - 1)))"

definition verifyVectorInitArrayOp :: "InitArrayOp \<Rightarrow> LogicalResult option" where
  "verifyVectorInitArrayOp op =
     (case getIntOrFloatBitWidth (initInit op) of
        None \<Rightarrow> None
      | Some initWidth \<Rightarrow>
          (case cast_VectorType (initArrayType op) of
             None \<Rightarrow> None
           | Some (shapes, elementType) \<Rightarrow>
               (case getIntOrFloatBitWidth elementType of
                  None \<Rightarrow> None
                | Some elementWidth \<Rightarrow>
                    if elementWidth \<noteq> initWidth
                    then Some (failure (emitOpError (initName op) @
                           [String ''element type of the array must match '',
                            String '' bitwidth of given value: '',
                            Unsigned initWidth]))
                    else if length shapes \<noteq> 1
                    then Some (failure (emitOpError (initName op) @
                           [String ''provide only one shape attribute '']))
                    else (let shape = hd shapes
                          in case shapeIndicator shape of
                               None \<Rightarrow> None
                             | Some indicator \<Rightarrow>
                                 if indicator \<noteq> 0
                                 then Some (failure (emitOpError (initName op) @
                                        [String ''given shape: '', Integer shape,
                                         String '' has to be a power of two'']))
                                 else Some success))))"

definition verifyVectorReadOp :: "ReadOp \<Rightarrow> LogicalResult option" where
  "verifyVectorReadOp op =
     (case getIntOrFloatBitWidth (readResult op) of
        None \<Rightarrow> None
      | Some type \<Rightarrow>
          (case cast_VectorType (readArrayType op) of
             None \<Rightarrow> None
           | Some (shapes, elementType) \<Rightarrow>
               (case getIntOrFloatBitWidth elementType of
                  None \<Rightarrow> None
                | Some elementWidth \<Rightarrow>
                    if elementWidth \<noteq> type
                    then Some (failure (emitOpError (readName op) @
                           [String ''element type of the array must match '',
                            String '' bitwidth of return type: '',
                            Unsigned type]))
                    else if length shapes \<noteq> 1
                    then Some (failure (emitOpError (readName op) @
                           [String ''provide only one shape attribute '']))
                    else (let shape = hd shapes
                          in case shapeIndicator shape of
                               None \<Rightarrow> None
                             | Some indicator \<Rightarrow>
                                 if indicator \<noteq> 0
                                 then Some (failure (emitOpError (readName op) @
                                        [String ''given shape: '', Integer shape,
                                         String '' has to be a power of two'']))
                                 else Some success))))"

definition verifyVectorWriteOp :: "WriteOp \<Rightarrow> LogicalResult option" where
  "verifyVectorWriteOp op =
     (case getIntOrFloatBitWidth (writeValue op) of
        None \<Rightarrow> None
      | Some type \<Rightarrow>
          (case cast_VectorType (writeArrayType op) of
             None \<Rightarrow> None
           | Some (shapes, elementType) \<Rightarrow>
               (case getIntOrFloatBitWidth elementType of
                  None \<Rightarrow> None
                | Some elementWidth \<Rightarrow>
                    if elementWidth \<noteq> type
                    then Some (failure (emitOpError (writeName op) @
                           [String ''element type of the array must match '',
                            String '' bitwidth of given value: '',
                            Unsigned type]))
                    else Some success)))"

definition verifyMemRefInitArrayOp :: "MemRefInitArrayOp \<Rightarrow> LogicalResult option" where
  "verifyMemRefInitArrayOp op = Some success"

definition verifyMemRefReadOp :: "ReadOp \<Rightarrow> LogicalResult option" where
  "verifyMemRefReadOp op =
     (case getIntOrFloatBitWidth (readResult op) of
        None \<Rightarrow> None
      | Some type \<Rightarrow>
          (case cast_MemRefType (readArrayType op) of
             None \<Rightarrow> None
           | Some (shapes, elementType) \<Rightarrow>
               (case getIntOrFloatBitWidth elementType of
                  None \<Rightarrow> None
                | Some elementWidth \<Rightarrow>
                    if elementWidth \<noteq> type
                    then Some (failure (emitOpError (readName op) @
                           [String ''element type of the array must match '',
                            String '' bitwidth of return type: '',
                            Unsigned type]))
                    else if length shapes \<noteq> 1
                    then Some (failure (emitOpError (readName op) @
                           [String ''provide only one shape attribute '']))
                    else (let shape = hd shapes
                          in case shapeIndicator shape of
                               None \<Rightarrow> None
                             | Some indicator \<Rightarrow>
                                 if indicator \<noteq> 0
                                 then Some (failure (emitOpError (readName op) @
                                        [String ''given shape: '', Integer shape,
                                         String '' has to be a power of two'']))
                                 else Some success))))"

definition verifyMemRefWriteOp :: "WriteOp \<Rightarrow> LogicalResult option" where
  "verifyMemRefWriteOp op =
     (case getIntOrFloatBitWidth (writeValue op) of
        None \<Rightarrow> None
      | Some type \<Rightarrow>
          (case cast_MemRefType (writeArrayType op) of
             None \<Rightarrow> None
           | Some (shapes, elementType) \<Rightarrow>
               (case getIntOrFloatBitWidth elementType of
                  None \<Rightarrow> None
                | Some elementWidth \<Rightarrow>
                    if elementWidth \<noteq> type
                    then Some (failure (emitOpError (writeName op) @
                           [String ''element type of the array must match '',
                            String '' bitwidth of given value: '',
                            Unsigned type]))
                    else Some success)))"

section \<open>Constant folding\<close>

datatype Attribute = IntegerAttr Type int | StringAttr string | UnitAttr

datatype Value = Value (valueName: string) (valueType: Type)

datatype OpFoldResult = FoldedAttribute Attribute | FoldedValue Value

record ConstantOp =
  constantValue :: Attribute
  constantResult :: Type

text \<open>
  \<open>ConstantOp::fold\<close> gets the constant values of the operands, one entry per operand
  (null where an operand is no constant), asserts that there is none and returns the
  value attribute. The failed assertion is \<open>None\<close>.
\<close>

definition ConstantOp_fold :: "ConstantOp \<Rightarrow> Attribute option list \<Rightarrow> OpFoldResult option" where
  "ConstantOp_fold op operands =
     (if operands = [] then Some (FoldedAttribute (constantValue op)) else None)"

section \<open>Textual syntax\<close>

text \<open>
  The text of an operation, after its name, as the parser's interface reads it: operand
  uses, punctuation, types and attribute dictionaries. The grammar of a type and of an
  attribute dictionary belongs to the host framework and to the dialect's types, so
  each is one token here. A parser consumes a prefix of the tokens and returns the rest;
  \<open>None\<close> is \<open>failure()\<close>.
\<close>

type_synonym NamedAttrList = "(string \<times> Attribute) list"

datatype Token =
    percent_identifier string
  | comma
  | colon
  | l_square
  | r_square
  | type_token Type
  | attribute_dict NamedAttrList

record OperationState =
  stOperands :: "Value list"
  stTypes :: "Type list"
  stAttributes :: NamedAttrList

text \<open>The state the framework hands to an operation's parser: nothing added yet.\<close>

definition emptyState :: OperationState where
  "emptyState = \<lparr>stOperands = [], stTypes = [], stAttributes = []\<rparr>"

text \<open>
  \<open>parseOperandList(operands, requiredOperandCount)\<close> without delimiters: no operand at
  all is accepted when none is required; otherwise operands separated by commas, and
  their number is compared with the required one (\<open>-1\<close>: any).
\<close>

fun parseOperandListTail :: "Token list \<Rightarrow> (string list \<times> Token list) option" where
  "parseOperandListTail (comma # percent_identifier n # ts) =
     (case parseOperandListTail ts of
        None \<Rightarrow> None
      | Some (ns, rest) \<Rightarrow> Some (n # ns, rest))"
| "parseOperandListTail (comma # ts) = None"
| "parseOperandListTail ts = Some ([], ts)"

definition parseOperandList :: "Token list \<Rightarrow> int \<Rightarrow> (string list \<times> Token list) option" where
  "parseOperandList ts requiredOperandCount =
     (case ts of
        percent_identifier n # ts' \<Rightarrow>
          (case parseOperandListTail ts' of
             None \<Rightarrow> None
           | Some (ns, rest) \<Rightarrow>
               if requiredOperandCount \<noteq> - 1 \<and> int (length (n # ns)) \<noteq> requiredOperandCount
               then None
               else Some (n # ns, rest))
      | _ \<Rightarrow>
          if requiredOperandCount = - 1 \<or> requiredOperandCount = 0
          then Some ([], ts)
          else None)"

definition parseOptionalAttrDict :: "Token list \<Rightarrow> NamedAttrList \<Rightarrow> (NamedAttrList \<times> Token list) option" where
  "parseOptionalAttrDict ts attrs =
     (case ts of
        attribute_dict d # rest \<Rightarrow> Some (attrs @ d, rest)
      | _ \<Rightarrow> Some (attrs, ts))"

definition parseColon :: "Token list \<Rightarrow> Token list option" where
  "parseColon ts = (case ts of colon # rest \<Rightarrow> Some rest | _ \<Rightarrow> None)"

definition parseOptionalComma :: "Token list \<Rightarrow> Token list option" where
  "parseOptionalComma ts = (case ts of comma # rest \<Rightarrow> Some rest | _ \<Rightarrow> None)"

definition parseType :: "Token list \<Rightarrow> (Type \<times> Token list) option" where
  "parseType ts = (case ts of type_token t # rest \<Rightarrow> Some (t, rest) | _ \<Rightarrow> None)"

definition parseColonType :: "Token list \<Rightarrow> (Type \<times> Token list) option" where
  "parseColonType ts = (case parseColon ts of None \<Rightarrow> None | Some rest \<Rightarrow> parseType rest)"

text \<open>
  \<open>resolveOperands(operands, types, loc, result)\<close>: as many types as operands, and each
  use gets its type. A name the scope knows must have been defined with that type; a
  name it does not know yet becomes a forward reference of that type.
\<close>

definition resolveOperand :: "(string \<rightharpoonup> Type) \<Rightarrow> string \<Rightarrow> Type \<Rightarrow> Value option" where
  "resolveOperand scope n t =
     (case scope n of
        None \<Rightarrow> Some (Value n t)
      | Some t' \<Rightarrow> if t' = t then Some (Value n t) else None)"

fun resolveOperands :: "(string \<rightharpoonup> Type) \<Rightarrow> string list \<Rightarrow> Type list \<Rightarrow> Value list \<Rightarrow> Value list option" where
  "resolveOperands scope [] [] result = Some result"
| "resolveOperands scope (n # ns) (t # ts) result =
     (case resolveOperand scope n t of
        None \<Rightarrow> None
      | Some v \<Rightarrow> resolveOperands scope ns ts (result @ [v]))"
| "resolveOperands scope _ _ result = None"

subsection \<open>IteOp\<close>

record IteOp =
  iteOperands :: "Value list"
  iteAttrs :: NamedAttrList
  iteType :: Type

text \<open>\<open>p << op->getOperands()\<close> prints the operands separated by commas.\<close>

fun printOperands :: "Value list \<Rightarrow> Token list" where
  "printOperands [] = []"
| "printOperands [v] = [percent_identifier (valueName v)]"
| "printOperands (v # vs) = percent_identifier (valueName v) # comma # printOperands vs"

definition printIteOp :: "IteOp \<Rightarrow> Token list" where
  "printIteOp op = printOperands (iteOperands op) @ [colon, type_token (iteType op)]"

definition parseIteOp :: "(string \<rightharpoonup> Type) \<Rightarrow> Token list \<Rightarrow> OperationState \<Rightarrow> (OperationState \<times> Token list) option" where
  "parseIteOp scope ts result =
     (case parseOperandList ts 3 of
        None \<Rightarrow> None
      | Some (operands, ts1) \<Rightarrow>
     (case parseOptionalAttrDict ts1 (stAttributes result) of
        None \<Rightarrow> None
      | Some (attrs, ts2) \<Rightarrow>
     (case parseColonType ts2 of
        None \<Rightarrow> None
      | Some (resultType, ts3) \<Rightarrow>
     (case (case parseOptionalComma ts3 of
              Some ts4 \<Rightarrow>
                (case parseType ts4 of
                   None \<Rightarrow> None
                 | Some (resultType', ts5) \<Rightarrow> Some (resultType, resultType', ts5))
            | None \<Rightarrow> Some (BitVecType 1, resultType, ts3)) of
        None \<Rightarrow> None
      | Some (conditionType, resultType, rest) \<Rightarrow>
     (case resolveOperands scope operands [conditionType, resultType, resultType]
             (stOperands result) of
        None \<Rightarrow> None
      | Some resolved \<Rightarrow>
          Some (\<lparr>stOperands = resolved,
                 stTypes = stTypes result @ [resultType],
                 stAttributes = attrs\<rparr>, rest))))))"

subsection \<open>Overflow operations\<close>

definition parseBinaryOverflowOp :: "(string \<rightharpoonup> Type) \<Rightarrow> Token list \<Rightarrow> OperationState \<Rightarrow> (OperationState \<times> Token list) option" where
  "parseBinaryOverflowOp scope ts result =
     (case parseOperandList ts 2 of
        None \<Rightarrow> None
      | Some (operands, ts1) \<Rightarrow>
     (case parseOptionalAttrDict ts1 (stAttributes result) of
        None \<Rightarrow> None
      | Some (attrs, ts2) \<Rightarrow>
     (case parseColonType ts2 of
        None \<Rightarrow> None
      | Some (operandType, rest) \<Rightarrow>
     (case resolveOperands scope operands [operandType, operandType] (stOperands result) of
        None \<Rightarrow> None
      | Some resolved \<Rightarrow>
          Some (\<lparr>stOperands = resolved,
                 stTypes = stTypes result @ [BitVecType 1],
                 stAttributes = attrs\<rparr>, rest)))))"

section \<open>Width rules of slice, extension and concatenation\<close>

text \<open>
  C6. For every SliceOp over bit-vectors, verification succeeds if and only if the width of
  the result is at most the width of the source operand (equal widths are accepted), and
  it is a verification error if and only if the result is wider than the source.
\<close>

theorem verifySliceOp_iff:
  "succeeded (verifySliceOp \<lparr>sliceName = n, sliceIn = BitVecType s, sliceType = BitVecType d\<rparr>)
     = (unat d \<le> unat s)
   \<and> failed (verifySliceOp \<lparr>sliceName = n, sliceIn = BitVecType s, sliceType = BitVecType d\<rparr>)
     = (unat s < unat d)"
  by (auto simp: verifySliceOp_def word_less_nat_alt)

theorem verifySliceOp_iff_witness:
  "succeeded (verifySliceOp \<lparr>sliceName = ''btor.slice'', sliceIn = BitVecType 8, sliceType = BitVecType 8\<rparr>)
   \<and> succeeded (verifySliceOp \<lparr>sliceName = ''btor.slice'', sliceIn = BitVecType 8, sliceType = BitVecType 3\<rparr>)
   \<and> failed (verifySliceOp \<lparr>sliceName = ''btor.slice'', sliceIn = BitVecType 8, sliceType = BitVecType 9\<rparr>)"
  using verifySliceOp_iff [of "''btor.slice''" 8 8]
        verifySliceOp_iff [of "''btor.slice''" 8 3]
        verifySliceOp_iff [of "''btor.slice''" 8 9]
  by simp

text \<open>
  C5. For every sign or zero extension over bit-vectors, verification succeeds if and only
  if the width of the result is at least the width of the source operand (equal widths are
  accepted), and it is a verification error if and only if the result is narrower.
\<close>

theorem verifyExtOp_iff:
  "succeeded (verifyExtOp \<lparr>extName = n, extIn = BitVecType s, extType = BitVecType d\<rparr>)
     = (unat s \<le> unat d)
   \<and> failed (verifyExtOp \<lparr>extName = n, extIn = BitVecType s, extType = BitVecType d\<rparr>)
     = (unat d < unat s)"
  by (auto simp: verifyExtOp_def word_less_nat_alt)

theorem verifyExtOp_iff_witness:
  "succeeded (verifyExtOp \<lparr>extName = ''btor.sext'', extIn = BitVecType 8, extType = BitVecType 8\<rparr>)
   \<and> succeeded (verifyExtOp \<lparr>extName = ''btor.uext'', extIn = BitVecType 8, extType = BitVecType 32\<rparr>)
   \<and> failed (verifyExtOp \<lparr>extName = ''btor.uext'', extIn = BitVecType 8, extType = BitVecType 7\<rparr>)"
  using verifyExtOp_iff [of "''btor.sext''" 8 8]
        verifyExtOp_iff [of "''btor.uext''" 8 32]
        verifyExtOp_iff [of "''btor.uext''" 8 7]
  by simp

text \<open>
  The sum of the operand widths of a ConcatOp is computed in \<open>unsigned\<close>: the verifier
  compares the width of the result with the sum modulo \<open>2 ^ 32\<close>.
\<close>

lemma u32_sum_iff: "(a + b = r) = (unat r = (unat a + unat b) mod 2 ^ 32)" for a b r :: u32
  by (auto simp: word_unat_eq_iff unat_word_ariths)

lemma verifyConcatOp_mod:
  "verifyConcatOp \<lparr>concatName = n, concatLhs = BitVecType a, concatRhs = BitVecType b,
      concatType = BitVecType r\<rparr>
   = Some (if unat r = (unat a + unat b) mod 2 ^ 32 then success
           else failure (emitError ''sum of '' @
                  [TypeArg (BitVecType a), String '' and '', TypeArg (BitVecType b),
                   String '' must be equal to operand type '', TypeArg (BitVecType r)]))"
  using u32_sum_iff [of a b r] by (simp add: verifyConcatOp_def)

text \<open>
  C4, as stated, fails: a ConcatOp of operand widths 4294967295 and 2 with a result of
  width 1 passes verification, and 1 is not the exact sum 4294967297.
\<close>

theorem verifyConcatOp_exact_sum_counterexample:
  "\<not> (succeeded (verifyConcatOp \<lparr>concatName = ''btor.concat'',
           concatLhs = BitVecType 4294967295, concatRhs = BitVecType 2,
           concatType = BitVecType 1\<rparr>)
       = (unat (1 :: u32) = unat (4294967295 :: u32) + unat (2 :: u32)))"
  by (simp add: verifyConcatOp_def)

text \<open>
  C4, amended. For every ConcatOp over bit-vectors whose operand widths sum to less than
  \<open>2 ^ 32\<close>, verification succeeds if and only if the width of the result equals the
  exact sum of the two operand widths, and any other result width is a verification error.
\<close>

theorem verifyConcatOp_iff:
  "unat a + unat b < 2 ^ 32 \<Longrightarrow>
   succeeded (verifyConcatOp \<lparr>concatName = n, concatLhs = BitVecType a,
       concatRhs = BitVecType b, concatType = BitVecType r\<rparr>)
     = (unat r = unat a + unat b)
   \<and> failed (verifyConcatOp \<lparr>concatName = n, concatLhs = BitVecType a,
       concatRhs = BitVecType b, concatType = BitVecType r\<rparr>)
     = (unat r \<noteq> unat a + unat b)"
  by (simp add: verifyConcatOp_mod)

theorem verifyConcatOp_iff_witness:
  "unat (8 :: u32) + unat (24 :: u32) < 2 ^ 32
   \<and> succeeded (verifyConcatOp \<lparr>concatName = ''btor.concat'', concatLhs = BitVecType 8,
       concatRhs = BitVecType 24, concatType = BitVecType 32\<rparr>)
   \<and> failed (verifyConcatOp \<lparr>concatName = ''btor.concat'', concatLhs = BitVecType 8,
       concatRhs = BitVecType 24, concatType = BitVecType 31\<rparr>)"
proof -
  have h: "unat (8 :: u32) + unat (24 :: u32) < 2 ^ 32" by simp
  show ?thesis
    using h verifyConcatOp_iff [OF h, of "''btor.concat''" 32]
          verifyConcatOp_iff [OF h, of "''btor.concat''" 31]
    by simp
qed

section \<open>Boolean results\<close>

lemma unat_eq_one_iff: "(unat w = Suc 0) = (w = 1)" for w :: u32
  using word_unat_eq_iff [of w 1] by simp

text \<open>
  C8. For every comparison and every boolean operation with a bit-vector result,
  verification succeeds if and only if the result has width 1; for every AssertNotOp and
  every ConstraintOp with a bit-vector operand, verification succeeds if and only if the
  operand has width 1. Any other width is a verification error.
\<close>

theorem boolean_width_iff:
  "succeeded (verifyCmpOp \<lparr>cmpName = n, cmpResult = BitVecType w\<rparr>) = (unat w = 1)
   \<and> failed (verifyCmpOp \<lparr>cmpName = n, cmpResult = BitVecType w\<rparr>) = (unat w \<noteq> 1)
   \<and> succeeded (verifyBooleanOp \<lparr>boolName = n, boolResult = BitVecType w\<rparr>) = (unat w = 1)
   \<and> failed (verifyBooleanOp \<lparr>boolName = n, boolResult = BitVecType w\<rparr>) = (unat w \<noteq> 1)
   \<and> succeeded (verifyAssertNotOp \<lparr>assertName = n, assertArg = BitVecType w\<rparr>) = (unat w = 1)
   \<and> failed (verifyAssertNotOp \<lparr>assertName = n, assertArg = BitVecType w\<rparr>) = (unat w \<noteq> 1)
   \<and> succeeded (verifyConstraintOp \<lparr>constraintName = n, constraintArg = BitVecType w\<rparr>)
       = (unat w = 1)
   \<and> failed (verifyConstraintOp \<lparr>constraintName = n, constraintArg = BitVecType w\<rparr>)
       = (unat w \<noteq> 1)"
  by (simp add: verifyCmpOp_def verifyBooleanOp_def verifyAssertNotOp_def
        verifyConstraintOp_def unat_eq_one_iff)

theorem boolean_width_iff_witness:
  "succeeded (verifyCmpOp \<lparr>cmpName = ''btor.cmp'', cmpResult = BitVecType 1\<rparr>)
   \<and> failed (verifyCmpOp \<lparr>cmpName = ''btor.cmp'', cmpResult = BitVecType 8\<rparr>)
   \<and> succeeded (verifyBooleanOp \<lparr>boolName = ''btor.iff'', boolResult = BitVecType 1\<rparr>)
   \<and> failed (verifyBooleanOp \<lparr>boolName = ''btor.iff'', boolResult = BitVecType 8\<rparr>)
   \<and> succeeded (verifyAssertNotOp \<lparr>assertName = ''btor.assert_not'', assertArg = BitVecType 1\<rparr>)
   \<and> failed (verifyAssertNotOp \<lparr>assertName = ''btor.assert_not'', assertArg = BitVecType 8\<rparr>)
   \<and> succeeded (verifyConstraintOp \<lparr>constraintName = ''btor.constraint'',
         constraintArg = BitVecType 1\<rparr>)
   \<and> failed (verifyConstraintOp \<lparr>constraintName = ''btor.constraint'',
         constraintArg = BitVecType 8\<rparr>)"
  using boolean_width_iff [of "''btor.cmp''" 1] boolean_width_iff [of "''btor.cmp''" 8]
        boolean_width_iff [of "''btor.iff''" 1] boolean_width_iff [of "''btor.iff''" 8]
        boolean_width_iff [of "''btor.assert_not''" 1]
        boolean_width_iff [of "''btor.assert_not''" 8]
        boolean_width_iff [of "''btor.constraint''" 1]
        boolean_width_iff [of "''btor.constraint''" 8]
  by simp

section \<open>Folding a constant\<close>

text \<open>
  C9. Folding a ConstantOp, which has no operands, always succeeds and returns exactly the
  value attribute the operation stores.
\<close>

theorem ConstantOp_fold_value:
  "ConstantOp_fold op [] = Some (FoldedAttribute (constantValue op))"
  by (simp add: ConstantOp_fold_def)

theorem ConstantOp_fold_value_witness:
  "ConstantOp_fold \<lparr>constantValue = IntegerAttr (IntegerType 8) 5,
       constantResult = BitVecType 8\<rparr> []
   = Some (FoldedAttribute (IntegerAttr (IntegerType 8) 5))"
  using ConstantOp_fold_value
    [of "\<lparr>constantValue = IntegerAttr (IntegerType 8) 5, constantResult = BitVecType 8\<rparr>"]
  by simp

section \<open>Initialised arrays\<close>

text \<open>
  C2, as stated, fails: for an 8-bit init value against \<open>ArrayType(indexWidth = 4,
  elementWidth = 16)\<close> the emitted diagnostic is the name of the operation, the fixed
  message and the width 8 of the init value; it does not name the element width 16.
\<close>

theorem verifyInitArrayOp_diagnostic_counterexample:
  "verifyInitArrayOp \<lparr>initName = ''btor.init_array'', initInit = BitVecType 8,
       initArrayType = ArrayType 4 16\<rparr>
   = Some (failure
       [String [CHR 0x27], String ''btor.init_array'', String (CHR 0x27 # '' op ''),
        String ''element initWidth of the array must match '',
        String '' bitwidth of given value: '', Unsigned 8])
   \<and> 16 \<notin> set (diagnosticWidths
       [String [CHR 0x27], String ''btor.init_array'', String (CHR 0x27 # '' op ''),
        String ''element initWidth of the array must match '',
        String '' bitwidth of given value: '', Unsigned 8])"
  by (simp add: verifyInitArrayOp_def emitOpError_def diagnosticWidths_def)

text \<open>
  C2, amended. For every InitArrayOp with a bit-vector init value on a \<open>btor::ArrayType\<close>,
  verification succeeds when the width of the init value equals the element width of the
  array and fails when they differ; the diagnostic it then emits is the name of the
  operation, the fixed message and the width of the init value, and that is the only
  width it names.
\<close>

theorem verifyInitArrayOp_iff:
  "succeeded (verifyInitArrayOp \<lparr>initName = n, initInit = BitVecType i,
       initArrayType = ArrayType s e\<rparr>) = (unat e = unat i)
   \<and> failed (verifyInitArrayOp \<lparr>initName = n, initInit = BitVecType i,
       initArrayType = ArrayType s e\<rparr>) = (unat e \<noteq> unat i)
   \<and> verifyInitArrayOp \<lparr>initName = n, initInit = BitVecType i,
       initArrayType = ArrayType s e\<rparr>
     = Some (if unat e = unat i then success
             else failure (emitOpError n @
                    [String ''element initWidth of the array must match '',
                     String '' bitwidth of given value: '', Unsigned i]))
   \<and> diagnosticWidths (emitOpError n @
          [String ''element initWidth of the array must match '',
           String '' bitwidth of given value: '', Unsigned i]) = [i]"
  by (simp add: verifyInitArrayOp_def emitOpError_def diagnosticWidths_def word_unat_eq_iff)

theorem verifyInitArrayOp_iff_witness:
  "succeeded (verifyInitArrayOp \<lparr>initName = ''btor.init_array'', initInit = BitVecType 8,
       initArrayType = ArrayType 4 8\<rparr>)
   \<and> failed (verifyInitArrayOp \<lparr>initName = ''btor.init_array'', initInit = BitVecType 8,
       initArrayType = ArrayType 4 16\<rparr>)"
  using verifyInitArrayOp_iff [of "''btor.init_array''" 8 4 8]
        verifyInitArrayOp_iff [of "''btor.init_array''" 8 4 16]
  by simp

section \<open>The shape rule of the vector and buffer encodings\<close>

text \<open>
  For a positive \<open>n\<close>, \<open>n AND (n - 1)\<close> clears the lowest set bit of \<open>n\<close>, so it is zero
  exactly for the powers of two: by induction on the bits of \<open>n\<close>, then carried over to
  a positive \<open>int64_t\<close>.
\<close>

lemma and_pred_even: "0 < n \<Longrightarrow> (2 * n) AND (2 * n - 1) = 2 * (n AND (n - 1))" for n :: nat
proof -
  assume "0 < n"
  then have "2 * n - 1 = 1 + 2 * (n - 1)" by simp
  then show ?thesis by (simp add: and_nat_rec[of "2 * n"] )
qed

lemma and_pred_odd: "(Suc (2 * n)) AND (Suc (2 * n) - 1) = 2 * n" for n :: nat
  by (simp add: and_nat_rec[of "Suc (2 * n)"])

lemma pow2_nat: "0 < n \<Longrightarrow> (n AND (n - 1) = 0) = (\<exists>k. n = 2 ^ k)" for n :: nat
proof (induction n rule: nat_bit_induct)
  case zero
  then show ?case by simp
next
  case (even n)
  then have n: "0 < n" by simp
  have "(\<exists>k. 2 * n = 2 ^ k) = (\<exists>k. n = 2 ^ k)"
  proof
    assume "\<exists>k. 2 * n = 2 ^ k"
    then obtain k where k: "2 * n = 2 ^ k" ..
    with n have "k \<noteq> 0" by (cases k) auto
    then obtain j where "k = Suc j" by (cases k) auto
    with k have "n = 2 ^ j" by simp
    then show "\<exists>k. n = 2 ^ k" ..
  next
    assume "\<exists>k. n = 2 ^ k"
    then obtain k where "n = 2 ^ k" ..
    then have "2 * n = 2 ^ Suc k" by simp
    then show "\<exists>k. 2 * n = 2 ^ k" ..
  qed
  then have ex: "(\<exists>k. n = 2 ^ k) = (\<exists>k. 2 * n = 2 ^ k)" by simp
  have "2 * n AND (2 * n - 1) = 2 * (n AND (n - 1))" using n by (rule and_pred_even)
  then have "(2 * n AND (2 * n - 1) = 0) = (n AND (n - 1) = 0)" by simp
  also have "\<dots> = (\<exists>k. n = 2 ^ k)" by (rule even.IH[OF n])
  also note ex
  finally show ?case .
next
  case (odd n)
  have "(\<exists>k. Suc (2 * n) = 2 ^ k) = (n = 0)"
  proof
    assume "\<exists>k. Suc (2 * n) = 2 ^ k"
    then obtain k where k: "Suc (2 * n) = 2 ^ k" ..
    have "k = 0"
    proof (rule ccontr)
      assume "k \<noteq> 0"
      then have "even ((2::nat) ^ k)" by simp
      with k show False by (metis even_Suc dvd_triv_left)
    qed
    with k show "n = 0" by simp
  next
    assume "n = 0"
    then have "Suc (2 * n) = 2 ^ 0" by simp
    then show "\<exists>k. Suc (2 * n) = 2 ^ k" ..
  qed
  moreover have "(Suc (2 * n) AND (Suc (2 * n) - 1) = 0) = (n = 0)"
    by (simp only: and_pred_odd) simp
  ultimately show ?case by (simp only:)
qed

lemma pow2_word:
  fixes s :: i64
  assumes pos: "0 < sint s"
  shows "(s AND (s - 1) = 0) = (\<exists>k. sint s = 2 ^ k)"
proof -
  from pos have nz: "s \<noteq> 0" by auto
  then have upos: "0 < unat s" by (simp add: unat_gt_0)
  have "sint s < 2 ^ 64" using sint_lt[of s] by simp
  with pos have "take_bit 64 (sint s) = sint s" by (simp add: take_bit_int_eq_self)
  then have "uint s = sint s" using uint_sint[of s] by simp
  then have su: "sint s = int (unat s)" by simp
  have "(s AND (s - 1) = 0) = (unat (s AND (s - 1)) = 0)" by (simp add: unat_eq_0)
  also have "unat (s AND (s - 1)) = unat s AND unat (s - 1)" by (simp add: unsigned_and_eq)
  also have "unat (s - 1) = unat s - 1" using nz by (rule unat_minus_one)
  also have "(unat s AND (unat s - 1) = 0) = (\<exists>k. unat s = 2 ^ k)" using upos by (rule pow2_nat)
  also have "\<dots> = (\<exists>k. int (unat s) = 2 ^ k)"
    by (metis of_nat_eq_iff of_nat_numeral of_nat_power)
  finally show ?thesis by (simp only: su)
qed

lemma shapeIndicator_pos: "0 < sint s \<Longrightarrow> shapeIndicator s = Some (s AND (s - 1))"
proof -
  assume "0 < sint s"
  then have "s \<noteq> - (2 ^ 63)" by auto
  then show ?thesis by (simp add: shapeIndicator_def)
qed

lemma three_not_power_of_two: "\<not> (\<exists>k. (3::int) = 2 ^ k)"
proof
  assume "\<exists>k. (3::int) = 2 ^ k"
  then obtain k where k: "(3::int) = 2 ^ k" ..
  show False
  proof (cases k)
    case 0
    with k show False by simp
  next
    case (Suc j)
    then have "even ((2::int) ^ k)" by simp
    with k show False by (metis even_numeral odd_numeral)
  qed
qed


text \<open>
  C1, as stated, fails: over the length 3, which is no power of two, the verifiers of
  MemRefInitArrayOp (it checks nothing), VectorWriteOp and MemRefWriteOp (they compare the
  element width only) succeed.
\<close>

theorem shape_rule_counterexample:
  "succeeded (verifyMemRefInitArrayOp \<lparr>memrefInitName = ''btor.memref_init_array'',
       memrefInitResult = MemRefType [3] (IntegerType 8)\<rparr>)
   \<and> succeeded (verifyVectorWriteOp \<lparr>writeName = ''btor.vector_write'',
       writeValue = IntegerType 8, writeArrayType = VectorType [3] (IntegerType 8)\<rparr>)
   \<and> succeeded (verifyMemRefWriteOp \<lparr>writeName = ''btor.memref_write'',
       writeValue = IntegerType 8, writeArrayType = MemRefType [3] (IntegerType 8)\<rparr>)
   \<and> \<not> (\<exists>k. sint (3 :: i64) = 2 ^ k)"
  using three_not_power_of_two
  by (simp add: verifyMemRefInitArrayOp_def verifyVectorWriteOp_def verifyMemRefWriteOp_def)

text \<open>
  C1, amended. For VectorInitArrayOp, VectorReadOp and MemRefReadOp over a one-dimensional
  array type of positive length whose element width matches the value, verification
  succeeds if and only if the length is a power of two and fails otherwise (length 3
  fails, length 4 succeeds). The verifier of MemRefInitArrayOp performs no check and
  always succeeds.
\<close>

theorem shape_rule:
  "0 < sint s \<Longrightarrow>
   succeeded (verifyVectorInitArrayOp \<lparr>initName = n, initInit = IntegerType w,
       initArrayType = VectorType [s] (IntegerType w)\<rparr>) = (\<exists>k. sint s = 2 ^ k)
   \<and> failed (verifyVectorInitArrayOp \<lparr>initName = n, initInit = IntegerType w,
       initArrayType = VectorType [s] (IntegerType w)\<rparr>) = (\<not> (\<exists>k. sint s = 2 ^ k))
   \<and> succeeded (verifyVectorReadOp \<lparr>readName = n,
       readArrayType = VectorType [s] (IntegerType w), readResult = IntegerType w\<rparr>)
       = (\<exists>k. sint s = 2 ^ k)
   \<and> failed (verifyVectorReadOp \<lparr>readName = n,
       readArrayType = VectorType [s] (IntegerType w), readResult = IntegerType w\<rparr>)
       = (\<not> (\<exists>k. sint s = 2 ^ k))
   \<and> succeeded (verifyMemRefReadOp \<lparr>readName = n,
       readArrayType = MemRefType [s] (IntegerType w), readResult = IntegerType w\<rparr>)
       = (\<exists>k. sint s = 2 ^ k)
   \<and> failed (verifyMemRefReadOp \<lparr>readName = n,
       readArrayType = MemRefType [s] (IntegerType w), readResult = IntegerType w\<rparr>)
       = (\<not> (\<exists>k. sint s = 2 ^ k))
   \<and> verifyMemRefInitArrayOp op = Some success"
proof -
  assume pos: "0 < sint s"
  note ind = shapeIndicator_pos [OF pos]
  have p: "(s AND (s - 1) = 0) = (\<exists>k. sint s = 2 ^ k)" by (rule pow2_word [OF pos])
  have 1: "verifyVectorInitArrayOp \<lparr>initName = n, initInit = IntegerType w,
       initArrayType = VectorType [s] (IntegerType w)\<rparr> =
       Some (if s AND (s - 1) = 0 then success
             else failure (emitOpError n @ [String ''given shape: '', Integer s,
                    String '' has to be a power of two'']))"
    by (simp add: verifyVectorInitArrayOp_def ind)
  have 2: "verifyVectorReadOp \<lparr>readName = n,
       readArrayType = VectorType [s] (IntegerType w), readResult = IntegerType w\<rparr> =
       Some (if s AND (s - 1) = 0 then success
             else failure (emitOpError n @ [String ''given shape: '', Integer s,
                    String '' has to be a power of two'']))"
    by (simp add: verifyVectorReadOp_def ind)
  have 3: "verifyMemRefReadOp \<lparr>readName = n,
       readArrayType = MemRefType [s] (IntegerType w), readResult = IntegerType w\<rparr> =
       Some (if s AND (s - 1) = 0 then success
             else failure (emitOpError n @ [String ''given shape: '', Integer s,
                    String '' has to be a power of two'']))"
    by (simp add: verifyMemRefReadOp_def ind)
  show ?thesis
    unfolding 1 2 3 p by (simp add: verifyMemRefInitArrayOp_def)
qed

theorem shape_rule_witness:
  "0 < sint (4 :: i64)
   \<and> succeeded (verifyVectorInitArrayOp \<lparr>initName = ''btor.vector_init_array'',
         initInit = IntegerType 8, initArrayType = VectorType [4] (IntegerType 8)\<rparr>)
   \<and> succeeded (verifyVectorReadOp \<lparr>readName = ''btor.vector_read'',
         readArrayType = VectorType [4] (IntegerType 8), readResult = IntegerType 8\<rparr>)
   \<and> succeeded (verifyMemRefReadOp \<lparr>readName = ''btor.memref_read'',
         readArrayType = MemRefType [4] (IntegerType 8), readResult = IntegerType 8\<rparr>)
   \<and> 0 < sint (3 :: i64)
   \<and> failed (verifyVectorInitArrayOp \<lparr>initName = ''btor.vector_init_array'',
         initInit = IntegerType 8, initArrayType = VectorType [3] (IntegerType 8)\<rparr>)
   \<and> failed (verifyVectorReadOp \<lparr>readName = ''btor.vector_read'',
         readArrayType = VectorType [3] (IntegerType 8), readResult = IntegerType 8\<rparr>)
   \<and> failed (verifyMemRefReadOp \<lparr>readName = ''btor.memref_read'',
         readArrayType = MemRefType [3] (IntegerType 8), readResult = IntegerType 8\<rparr>)"
proof -
  have h4: "0 < sint (4 :: i64)" by simp
  have h3: "0 < sint (3 :: i64)" by simp
  have p4: "\<exists>k. sint (4 :: i64) = 2 ^ k" by (rule exI [of _ 2]) simp
  have p3: "\<not> (\<exists>k. sint (3 :: i64) = 2 ^ k)" using three_not_power_of_two by simp
  show ?thesis
    using h4 h3 p4 p3
      shape_rule [OF h4, of "''btor.vector_init_array''" 8]
      shape_rule [OF h4, of "''btor.vector_read''" 8]
      shape_rule [OF h4, of "''btor.memref_read''" 8]
      shape_rule [OF h3, of "''btor.vector_init_array''" 8]
      shape_rule [OF h3, of "''btor.vector_read''" 8]
      shape_rule [OF h3, of "''btor.memref_read''" 8]
    by simp
qed

text \<open>
  C10. For an array of declared length 0 the shape test \<open>shape & (shape - 1)\<close> gives 0,
  so the verifiers of VectorInitArrayOp, VectorReadOp and MemRefReadOp accept the length 0
  (the element width matching), although 0 is no power of two.
\<close>

theorem shape_zero_accepted:
  "shapeIndicator 0 = Some 0
   \<and> succeeded (verifyVectorInitArrayOp \<lparr>initName = n, initInit = IntegerType w,
         initArrayType = VectorType [0] (IntegerType w)\<rparr>)
   \<and> succeeded (verifyVectorReadOp \<lparr>readName = n,
         readArrayType = VectorType [0] (IntegerType w), readResult = IntegerType w\<rparr>)
   \<and> succeeded (verifyMemRefReadOp \<lparr>readName = n,
         readArrayType = MemRefType [0] (IntegerType w), readResult = IntegerType w\<rparr>)
   \<and> \<not> (\<exists>k. sint (0 :: i64) = 2 ^ k)"
  by (simp add: shapeIndicator_def verifyVectorInitArrayOp_def verifyVectorReadOp_def
        verifyMemRefReadOp_def)

theorem shape_zero_accepted_witness:
  "succeeded (verifyVectorInitArrayOp \<lparr>initName = ''btor.vector_init_array'',
         initInit = IntegerType 8, initArrayType = VectorType [0] (IntegerType 8)\<rparr>)
   \<and> succeeded (verifyVectorReadOp \<lparr>readName = ''btor.vector_read'',
         readArrayType = VectorType [0] (IntegerType 8), readResult = IntegerType 8\<rparr>)
   \<and> succeeded (verifyMemRefReadOp \<lparr>readName = ''btor.memref_read'',
         readArrayType = MemRefType [0] (IntegerType 8), readResult = IntegerType 8\<rparr>)"
  using shape_zero_accepted [of "''btor.vector_init_array''" 8]
        shape_zero_accepted [of "''btor.vector_read''" 8]
        shape_zero_accepted [of "''btor.memref_read''" 8]
  by simp

section \<open>Parsing an overflow operation\<close>

lemma parseOperandList_length:
  "parseOperandList ts k = Some (ns, rest) \<Longrightarrow> k \<noteq> - 1 \<Longrightarrow> int (length ns) = k"
  by (auto simp: parseOperandList_def split: list.splits Token.splits option.splits if_splits)

text \<open>
  C7. Every overflow-detecting operation that \<open>parseBinaryOverflowOp\<close> parses from text
  has exactly one result, of bit-vector type of width 1, whatever the type given for its
  two operands, which both get that one type.
\<close>

theorem parseBinaryOverflowOp_result:
  "parseBinaryOverflowOp scope ts emptyState = Some (st, rest) \<Longrightarrow>
     stTypes st = [BitVecType 1]
     \<and> (\<exists>a b. stOperands st = [a, b] \<and> valueType a = valueType b)"
proof -
  assume p: "parseBinaryOverflowOp scope ts emptyState = Some (st, rest)"
  then obtain names ts1 where ol: "parseOperandList ts 2 = Some (names, ts1)"
    by (auto simp: parseBinaryOverflowOp_def split: option.splits)
  then have "int (length names) = 2" by (rule parseOperandList_length) simp
  then obtain x y where names: "names = [x, y]"
    by (cases names; cases "tl names"; cases "tl (tl names)") auto
  from p ol names show ?thesis
    by (auto simp: parseBinaryOverflowOp_def emptyState_def resolveOperand_def
          split: option.splits if_splits)
qed

theorem parseBinaryOverflowOp_result_witness:
  "parseBinaryOverflowOp [''a'' \<mapsto> BitVecType 32, ''b'' \<mapsto> BitVecType 32]
      [percent_identifier ''a'', comma, percent_identifier ''b'', colon,
       type_token (BitVecType 32)] emptyState
    = Some (\<lparr>stOperands = [Value ''a'' (BitVecType 32), Value ''b'' (BitVecType 32)],
             stTypes = [BitVecType 1], stAttributes = []\<rparr>, [])
   \<and> stTypes \<lparr>stOperands = [Value ''a'' (BitVecType 32), Value ''b'' (BitVecType 32)],
             stTypes = [BitVecType 1], stAttributes = []\<rparr> = [BitVecType 1]"
proof -
  have h: "parseBinaryOverflowOp [''a'' \<mapsto> BitVecType 32, ''b'' \<mapsto> BitVecType 32]
      [percent_identifier ''a'', comma, percent_identifier ''b'', colon,
       type_token (BitVecType 32)] emptyState
    = Some (\<lparr>stOperands = [Value ''a'' (BitVecType 32), Value ''b'' (BitVecType 32)],
             stTypes = [BitVecType 1], stAttributes = []\<rparr>, [])"
    by (simp add: parseBinaryOverflowOp_def parseOperandList_def parseOptionalAttrDict_def
          parseColonType_def parseColon_def parseType_def resolveOperand_def emptyState_def)
  show ?thesis using h parseBinaryOverflowOp_result [OF h] by simp
qed

section \<open>Printing and parsing an IteOp\<close>

text \<open>
  With a condition of width 1 and no attributes, the printed form of an IteOp parses back
  to its operands, their types and its result type.
\<close>

lemma ite_round_trip_bool:
  "scope c = Some (BitVecType 1) \<Longrightarrow> scope t = Some T \<Longrightarrow> scope f = Some T \<Longrightarrow>
   parseIteOp scope
      (printIteOp \<lparr>iteOperands = [Value c (BitVecType 1), Value t T, Value f T],
             iteAttrs = [], iteType = T\<rparr>) emptyState
    = Some (\<lparr>stOperands = [Value c (BitVecType 1), Value t T, Value f T],
             stTypes = [T], stAttributes = []\<rparr>, [])"
  by (simp add: parseIteOp_def printIteOp_def parseOperandList_def parseOptionalAttrDict_def
        parseColonType_def parseColon_def parseType_def parseOptionalComma_def
        resolveOperand_def emptyState_def)

text \<open>
  With any other condition type the printed form does not parse back: the printer leaves
  the condition type out, and the parser then resolves the condition at \<open>bv<1>\<close>.
\<close>

lemma ite_round_trip_wide:
  "scope c = Some C \<Longrightarrow> C \<noteq> BitVecType 1 \<Longrightarrow>
   parseIteOp scope
      (printIteOp \<lparr>iteOperands = [Value c C, Value t T, Value f T],
             iteAttrs = [], iteType = T\<rparr>) emptyState
    = None"
  by (simp add: parseIteOp_def printIteOp_def parseOperandList_def parseOptionalAttrDict_def
        parseColonType_def parseColon_def parseType_def parseOptionalComma_def
        resolveOperand_def emptyState_def)

text \<open>
  C3 does not hold for an IteOp whose condition is wider than 1. The parser accepts the
  form with an explicit condition type, \<open>%c, %t, %f : bv<4>, bv<8>\<close>; the printer emits
  \<open>%c, %t, %f : bv<8>\<close> for the operation parsed, without the condition type; and parsing
  that text fails, since the condition is now resolved at the default type \<open>bv<1>\<close>.
\<close>

theorem ite_wide_condition_round_trip_fails:
  "parseIteOp [''c'' \<mapsto> BitVecType 4, ''t'' \<mapsto> BitVecType 8, ''f'' \<mapsto> BitVecType 8]
      [percent_identifier ''c'', comma, percent_identifier ''t'', comma,
       percent_identifier ''f'', colon, type_token (BitVecType 4), comma,
       type_token (BitVecType 8)] emptyState
    = Some (\<lparr>stOperands = [Value ''c'' (BitVecType 4), Value ''t'' (BitVecType 8),
                           Value ''f'' (BitVecType 8)],
             stTypes = [BitVecType 8], stAttributes = []\<rparr>, [])
   \<and> printIteOp \<lparr>iteOperands = [Value ''c'' (BitVecType 4), Value ''t'' (BitVecType 8),
                           Value ''f'' (BitVecType 8)],
             iteAttrs = [], iteType = BitVecType 8\<rparr>
    = [percent_identifier ''c'', comma, percent_identifier ''t'', comma,
       percent_identifier ''f'', colon, type_token (BitVecType 8)]
   \<and> parseIteOp [''c'' \<mapsto> BitVecType 4, ''t'' \<mapsto> BitVecType 8, ''f'' \<mapsto> BitVecType 8]
      (printIteOp \<lparr>iteOperands = [Value ''c'' (BitVecType 4), Value ''t'' (BitVecType 8),
                           Value ''f'' (BitVecType 8)],
             iteAttrs = [], iteType = BitVecType 8\<rparr>) emptyState
    = None"
  by (simp add: parseIteOp_def printIteOp_def parseOperandList_def parseOptionalAttrDict_def
        parseColonType_def parseColon_def parseType_def parseOptionalComma_def
        resolveOperand_def emptyState_def)

end
